theory Spec2Isabelle
  imports Main
begin

section \<open>Strings and character classes\<close>

text \<open>
  A JavaScript string is a sequence of UTF-16 code units. The model uses \<^typ>\<open>string\<close>
  and reads each \<^typ>\<open>char\<close> as the code unit with the same number (0..255, the
  Latin-1 range): \<open>[A-Z]\<close>, \<open>[_-]\<close>, \<open>\<bsol>w\<close> and \<open>\<bsol>s\<close> of the regular
  expressions of the source, and \<open>toLowerCase\<close>, \<open>toUpperCase\<close> and \<open>trim\<close>, are
  modelled on that range.
\<close>

definition code :: "char \<Rightarrow> nat" where
  "code c = of_char c"

text \<open>\<open>\<bsol>s\<close>: tab, line feed, vertical tab, form feed, carriage return, space, no-break space.
  \<open>String.prototype.trim\<close> strips the same set.\<close>

definition is_space :: "char \<Rightarrow> bool" where
  "is_space c = ((9 \<le> code c \<and> code c \<le> 13) \<or> code c = 32 \<or> code c = 160)"

text \<open>\<open>[A-Z]\<close>\<close>

definition is_AZ :: "char \<Rightarrow> bool" where
  "is_AZ c = (65 \<le> code c \<and> code c \<le> 90)"

text \<open>\<open>[a-z]\<close>\<close>

definition is_az :: "char \<Rightarrow> bool" where
  "is_az c = (97 \<le> code c \<and> code c \<le> 122)"

definition is_digit :: "char \<Rightarrow> bool" where
  "is_digit c = (48 \<le> code c \<and> code c \<le> 57)"

text \<open>\<open>[_-]\<close>\<close>

definition is_sep :: "char \<Rightarrow> bool" where
  "is_sep c = (c = CHR ''_'' \<or> c = CHR ''-'')"

text \<open>\<open>\<bsol>w\<close> is \<open>[A-Za-z0-9_]\<close>.\<close>

definition is_word :: "char \<Rightarrow> bool" where
  "is_word c = (is_AZ c \<or> is_az c \<or> is_digit c \<or> c = CHR ''_'')"

text \<open>The upper-case letters of the range: \<open>A-Z\<close> and U+00C0..U+00DE without the
  multiplication sign U+00D7.\<close>

definition is_upper :: "char \<Rightarrow> bool" where
  "is_upper c = (is_AZ c \<or> (192 \<le> code c \<and> code c \<le> 222 \<and> code c \<noteq> 215))"

text \<open>\<open>toLowerCase\<close>, one code unit at a time: every upper-case letter of the range has
  its lower-case partner 32 places up.\<close>

definition lower_char :: "char \<Rightarrow> char" where
  "lower_char c = (if is_upper c then char_of (code c + 32) else c)"

definition toLowerCase :: "string \<Rightarrow> string" where
  "toLowerCase s = map lower_char s"

text \<open>\<open>toUpperCase\<close> of a one-character match of \<open>\<bsol>w\<close> (the only place the source
  calls it): \<open>a-z\<close> go 32 places down, the digits, the underscore and \<open>A-Z\<close> stay.\<close>

definition upper_char :: "char \<Rightarrow> char" where
  "upper_char c = (if is_az c then char_of (code c - 32) else c)"

definition trim :: "string \<Rightarrow> string" where
  "trim s = rev (dropWhile is_space (rev (dropWhile is_space s)))"

text \<open>
  \<open>str.replace(/[class]+/g, f)\<close>: scanning from the left, every maximal run of characters
  of the class is replaced by \<open>f\<close> of the run, everything else is copied. The scan is the
  same whatever the characters are.
\<close>

function replace_runs :: "('a \<Rightarrow> bool) \<Rightarrow> ('a list \<Rightarrow> 'a list) \<Rightarrow> 'a list \<Rightarrow> 'a list" where
  "replace_runs P f [] = []"
| "replace_runs P f (c # cs) =
     (if P c then f (c # takeWhile P cs) @ replace_runs P f (dropWhile P cs)
      else c # replace_runs P f cs)"
  by pat_completeness auto
termination
  by (relation "measure (\<lambda>(P, f, s). length s)")
     (auto simp: length_dropWhile_le less_Suc_eq_le)

section \<open>The case transformers\<close>

text \<open>
  \<^verbatim>\<open>
  function stripCase(str) {
    return str.replace(/([A-Z]+)/g, " $1").replace(/[_-]+/g, " ")
              .replace(/\s+/g, " ").trim().toLowerCase();
  }
  \<close>
\<close>

definition stripCase :: "string \<Rightarrow> string" where
  "stripCase str =
     toLowerCase (trim
       (replace_runs is_space (\<lambda>_. '' '')
         (replace_runs is_sep (\<lambda>_. '' '')
           (replace_runs is_AZ (\<lambda>run. '' '' @ run) str))))"

text \<open>\<open>str.replace(/\<bsol>b\<bsol>w/g, (match) => match.toUpperCase())\<close>: a word character is
  replaced when a word boundary precedes it, that is at the start of the string or after
  a character that is not a word character. The flag says whether the previous character
  was a word character.\<close>

fun upperCaseWords_from :: "bool \<Rightarrow> string \<Rightarrow> string" where
  "upperCaseWords_from prev [] = []"
| "upperCaseWords_from prev (c # cs) =
     (if is_word c \<and> \<not> prev then upper_char c else c) # upperCaseWords_from (is_word c) cs"

definition upperCaseWords :: "string \<Rightarrow> string" where
  "upperCaseWords str = upperCaseWords_from False str"

definition titleCase :: "string \<Rightarrow> string" where
  "titleCase str = upperCaseWords (stripCase str)"

definition snakeCase :: "string \<Rightarrow> string" where
  "snakeCase str = replace_runs is_space (\<lambda>_. ''_'') (stripCase str)"

definition titleSnakeCase :: "string \<Rightarrow> string" where
  "titleSnakeCase str = replace_runs is_space (\<lambda>_. ''_'') (titleCase str)"


section \<open>Shapes of strings used in the proofs\<close>






section \<open>The world the script runs in\<close>

text \<open>
  The script works on the file system and on the terminal, and it calls two collaborators
  that are not part of the repository: the shell, through \<open>execSync\<close>, and the
  \<open>replace-in-file\<close> package. The file system is a map from paths to file contents.
\<close>

type_synonym path = string
type_synonym filesystem = "path \<rightharpoonup> string"

datatype js_error =
    ReferenceError string
  | ENOENT path
  | LibraryError string

text \<open>The options object of a \<open>replaceInFiles\<close> call. A pattern is a string or a regular
  expression (source and flags); \<open>files\<close>, \<open>ignore\<close>, \<open>from\<close> and \<open>to\<close>, which the source
  gives as one value or as an array, are lists.\<close>

datatype pattern = Str string | RegExp string string

record rif_config =
  rif_files :: "string list"
  rif_ignore :: "string list"
  rif_from :: "pattern list"
  rif_to :: "string list"
  rif_dry :: bool

text \<open>What a run leaves behind besides the files: the lines written with \<open>console.log\<close>,
  \<open>console.error\<close> and \<open>console.warn\<close>, the commands handed to the shell and the calls of
  \<open>replaceInFiles\<close>, in the order they happened.\<close>

datatype event =
    Log string
  | Error string
  | ErrorObject js_error
  | Warn string
  | Exec string
  | Replace rif_config

record world =
  files :: filesystem
  trace :: "event list"

text \<open>The collaborators are parameters of the model. \<open>execSync E command fs\<close> says whether
  the command exits with status zero and what files it leaves; \<open>replaceLib E cfg fs\<close> is
  what \<open>replace-in-file\<close> does with the options \<open>cfg\<close> when it writes: the error it
  rejects with, if any, and the files afterwards.\<close>

record env =
  execSync :: "string \<Rightarrow> filesystem \<Rightarrow> bool \<times> filesystem"
  replaceLib :: "rif_config \<Rightarrow> filesystem \<Rightarrow> js_error option \<times> filesystem"

text \<open>A statement of the script that may throw: the exception, if any, and the world it
  leaves.\<close>

type_synonym step = "world \<Rightarrow> js_error option \<times> world"

definition emit :: "event \<Rightarrow> world \<Rightarrow> world" where
  "emit e w = w\<lparr>trace := trace w @ [e]\<rparr>"

definition console_log :: "string \<Rightarrow> step" where
  "console_log msg w = (None, emit (Log msg) w)"

text \<open>The body of a \<open>try\<close> block runs statement by statement up to the first exception;
  the \<open>catch\<close> block gets the exception and the world as it is then.\<close>

fun run_steps :: "step list \<Rightarrow> step" where
  "run_steps [] w = (None, w)"
| "run_steps (st # sts) w =
     (case st w of (Some e, w') \<Rightarrow> (Some e, w') | (None, w') \<Rightarrow> run_steps sts w')"

definition try_catch :: "step list \<Rightarrow> (js_error \<Rightarrow> world \<Rightarrow> world) \<Rightarrow> world \<Rightarrow> world" where
  "try_catch body handler w =
     (case run_steps body w of (None, w') \<Rightarrow> w' | (Some e, w') \<Rightarrow> handler e w')"

text \<open>\<open>fs.access\<close>, \<open>fs.rm\<close> and \<open>fs.rename\<close> of \<open>fs/promises\<close>, on files: each rejects
  when its (first) path does not exist; \<open>rename\<close> replaces a file that has the new name.\<close>

definition fs_access :: "path \<Rightarrow> step" where
  "fs_access p w = (if files w p = None then (Some (ENOENT p), w) else (None, w))"

definition fs_rm :: "path \<Rightarrow> step" where
  "fs_rm p w = (if files w p = None then (Some (ENOENT p), w)
                else (None, w\<lparr>files := (files w)(p := None)\<rparr>))"

definition fs_rename :: "path \<Rightarrow> path \<Rightarrow> step" where
  "fs_rename old new w =
     (case files w old of
        None \<Rightarrow> (Some (ENOENT old), w)
      | Some content \<Rightarrow> (None, w\<lparr>files := ((files w)(old := None))(new \<mapsto> content)\<rparr>))"

text \<open>
  \<^verbatim>\<open>
  const runCommand = (command) => {
    try { execSync(`${command}`, { stdio: "inherit" }); }
    catch (error) { console.error(`Failed to execute "${command}"`, error); return false; }
    return true;
  };
  \<close>
\<close>

definition runCommand :: "env \<Rightarrow> string \<Rightarrow> world \<Rightarrow> bool \<times> world" where
  "runCommand E command w =
     (let (ok, fs') = execSync E command (files w);
          w' = emit (Exec command) (w\<lparr>files := fs'\<rparr>)
      in if ok then (True, w')
         else (False, emit (Error (''Failed to execute \"'' @ command @ ''\"'')) w'))"

text \<open>A call of \<open>replaceInFiles\<close>. With \<open>dry: true\<close> the package does its work and reports
  its results, and writes nothing.\<close>

definition replaceInFiles :: "env \<Rightarrow> rif_config \<Rightarrow> step" where
  "replaceInFiles E cfg w =
     (let (err, fs') = replaceLib E cfg (files w)
      in (err, emit (Replace cfg) (w\<lparr>files := (if rif_dry cfg then files w else fs')\<rparr>)))"

text \<open>\<open>path.join\<close> of a directory and a relative name; the normalisation of the result
  (of \<open>.\<close>, \<open>..\<close> and doubled separators) is not modelled.\<close>

definition path_join :: "string \<Rightarrow> string \<Rightarrow> string" where
  "path_join a b = a @ ''/'' @ b"

text \<open>A step whose failure and whose effect on the files depend on the files alone.\<close>

definition files_only :: "step \<Rightarrow> bool" where
  "files_only st = (\<forall>w w'. files w = files w' \<longrightarrow>
     fst (st w) = fst (st w') \<and> files (snd (st w)) = files (snd (st w')))"

section \<open>Prompt defaults and validation\<close>

text \<open>The answer set: what \<open>prompts\<close> returns, one string for each question.\<close>

record answers =
  slug :: string
  displayName :: string
  description :: string
  authorName :: string
  authorSlug :: string
  authorUri :: string
  githubUri :: string
  uri :: string
  "keywords" :: string
  textDomain :: string
  funcPrefix :: string
  classPrefix :: string

text \<open>\<open>initial: repoName && repoName !== "." ? repoName : "my-project"\<close>; the argument is
  \<open>process.argv[2]\<close>, \<open>None\<close> when the script is started without one.\<close>

definition slug_initial :: "string option \<Rightarrow> string" where
  "slug_initial arg =
     (case arg of None \<Rightarrow> ''my-project''
      | Some r \<Rightarrow> if r \<noteq> [] \<and> r \<noteq> ''.'' then r else ''my-project'')"

text \<open>\<open>initial: (_, { slug }) => snakeCase(slug) + "_"\<close> and
  \<open>initial: (_, { slug }) => titleSnakeCase(slug) + "_"\<close>\<close>

definition funcPrefix_initial :: "string \<Rightarrow> string" where
  "funcPrefix_initial slg = snakeCase slg @ ''_''"

definition classPrefix_initial :: "string \<Rightarrow> string" where
  "classPrefix_initial slg = titleSnakeCase slg @ ''_''"

text \<open>A \<open>validate\<close> callback returns \<open>true\<close> or the message to show.\<close>

datatype validation = Accepted | Rejected_with string

text \<open>\<open>/\<bsol>s/.test(value)\<close>\<close>

definition test_space :: "string \<Rightarrow> bool" where
  "test_space v = list_ex is_space v"

text \<open>\<open>validate: (value) => (/\<bsol>s/.test(value) ? "Function prefix must not contain any
  spaces." : true)\<close>, and the same for the class prefix.\<close>

definition funcPrefix_validate :: "string \<Rightarrow> validation" where
  "funcPrefix_validate v =
     (if test_space v then Rejected_with ''Function prefix must not contain any spaces.''
      else Accepted)"

definition classPrefix_validate :: "string \<Rightarrow> validation" where
  "classPrefix_validate v =
     (if test_space v then Rejected_with ''Class prefix must not contain any spaces.''
      else Accepted)"

text \<open>A text prompt of the \<open>prompts\<close> package with a \<open>validate\<close> callback: the entries
  the user submits are taken in turn; a rejected entry shows the message and the question
  stays open, the first accepted entry is the answer. The result is the answer, if the
  user got that far, and the messages shown.\<close>

fun ask :: "(string \<Rightarrow> validation) \<Rightarrow> string list \<Rightarrow> string option \<times> string list" where
  "ask validate [] = (None, [])"
| "ask validate (v # vs) =
     (case validate v of
        Accepted \<Rightarrow> (Some v, [])
      | Rejected_with msg \<Rightarrow> (let (r, msgs) = ask validate vs in (r, msg # msgs)))"

section \<open>Commands, paths and the substitution plan\<close>

text \<open>The entries of \<open>commands\<close> and of \<open>paths\<close>, as functions of \<open>repoName\<close>.\<close>

definition gitCheckout :: "string \<Rightarrow> string" where
  "gitCheckout repoName =
     ''git clone -b npx --depth 1 https://github.com/Denman-Digital/wp-theme-starter.git  ''
     @ repoName"

definition newRepo :: "string \<Rightarrow> string" where
  "newRepo repoName =
     ''cd '' @ repoName
     @ '' && rm -rf .git && git init && git add --all && git commit -m \"Created new theme from wp-theme-starter\"''"

definition installDeps :: "string \<Rightarrow> string" where
  "installDeps repoName = ''cd '' @ repoName @ '' && npm install''"

record path_table =
  package :: path
  packageSample :: path
  composer :: path
  composerSample :: path
  composerIncludes :: path
  composerIncludesSample :: path
  styleCSS :: path
  repoHistory :: path

definition paths :: "string \<Rightarrow> path_table" where
  "paths repoName = \<lparr>
     package = path_join repoName ''package.json'',
     packageSample = path_join repoName ''package-sample.json'',
     composer = path_join repoName ''composer.json'',
     composerSample = path_join repoName ''composer-sample.json'',
     composerIncludes = path_join (path_join repoName ''includes'') ''composer.json'',
     composerIncludesSample = path_join (path_join repoName ''includes'') ''composer-sample.json'',
     styleCSS = path_join repoName ''style.css'',
     repoHistory = path_join repoName ''.git'' \<rparr>"

text \<open>\<open>keywords.split(",")\<close>: the scan keeps the segment read so far.\<close>

fun split_from :: "char \<Rightarrow> string \<Rightarrow> string \<Rightarrow> string list" where
  "split_from sep seg [] = [rev seg]"
| "split_from sep seg (c # cs) =
     (if c = sep then rev seg # split_from sep [] cs else split_from sep (c # seg) cs)"

definition split :: "char \<Rightarrow> string \<Rightarrow> string list" where
  "split sep s = split_from sep [] s"

fun join :: "string \<Rightarrow> string list \<Rightarrow> string" where
  "join sep [] = []"
| "join sep [x] = x"
| "join sep (x # y # ys) = x @ sep @ join sep (y # ys)"

text \<open>\<open>keywords.split(",").map((str) => `"${str.trim()}"`).join(", ")\<close>\<close>

definition quoted_keywords :: "string \<Rightarrow> string" where
  "quoted_keywords kw =
     join '', '' (map (\<lambda>str. ''\"'' @ trim str @ ''\"'') (split (CHR '','') kw))"

text \<open>The heading that replaces the banner block of the readme. In \<open>bin/cli.js\<close> a brace
  follows the link; \<open>closing\<close> is that brace, or nothing.\<close>

definition banner :: "string \<Rightarrow> answers \<Rightarrow> string" where
  "banner closing a =
     ''# '' @ displayName a @ ''\<newline>\<newline>'' @ description a
     @ ''\<newline>\<newline>Based on [Denman WP Theme Starter](https://github.com/Denman-Digital/wp-theme-starter/)''
     @ closing @ ''\<newline>\<newline>''"

text \<open>The five passes of the evolved entry point, in the order of the source.\<close>

definition plan_evolved :: "string \<Rightarrow> answers \<Rightarrow> rif_config list" where
  "plan_evolved repoName a =
     (let P = paths repoName in
      [ \<lparr> rif_files = [styleCSS P, package P, composer P, composerIncludes P],
          rif_ignore = [],
          rif_from = [RegExp ''<theme_slug>'' ''g'', RegExp ''<theme_display_name>'' ''g'',
                      RegExp ''<theme_description>'' ''g'', RegExp ''<theme_author_name>'' ''g'',
                      RegExp ''<theme_author_uri>'' ''g'', RegExp ''<theme_author_slug>'' ''g'',
                      RegExp ''<theme_github_uri>'' ''g'', RegExp ''<theme_uri>'' ''g'',
                      RegExp ''wp-theme-starter-text-domain'' ''g''],
          rif_to = [slug a, displayName a, description a, authorName a, authorUri a,
                    authorSlug a, githubUri a, uri a, textDomain a],
          rif_dry = False \<rparr>,
        \<lparr> rif_files = [styleCSS P],
          rif_ignore = [],
          rif_from = [Str ''<theme_keywords>''],
          rif_to = [keywords a],
          rif_dry = False \<rparr>,
        \<lparr> rif_files = [package P, composer P, composerIncludes P],
          rif_ignore = [],
          rif_from = [Str ''\"<theme_keywords>\"''],
          rif_to = [quoted_keywords (keywords a)],
          rif_dry = False \<rparr>,
        \<lparr> rif_files = [path_join repoName ''**/*.php''],
          rif_ignore = [''**/vendor/**/*.php''],
          rif_from = [RegExp ''<theme_slug>'' ''g'', RegExp ''wp-theme-starter-text-domain'' ''g'',
                      RegExp ''wp_theme_starter_'' ''g'', RegExp ''WP_Theme_Starter_'' ''g''],
          rif_to = [slug a, textDomain a, funcPrefix a, classPrefix a],
          rif_dry = False \<rparr>,
        \<lparr> rif_files = [path_join repoName ''readme.md''],
          rif_ignore = [],
          rif_from = [RegExp ''<!-- start_banner.*end_banner -->'' ''gims''],
          rif_to = [banner [] a],
          rif_dry = False \<rparr> ])"

text \<open>The five passes of \<open>bin/cli.js\<close>: every one carries \<open>dry: true\<close>.\<close>

definition plan_cli :: "string \<Rightarrow> answers \<Rightarrow> rif_config list" where
  "plan_cli repoName a =
     (let P = paths repoName in
      [ \<lparr> rif_files = [styleCSS P, package P],
          rif_ignore = [],
          rif_from = [RegExp ''<theme_slug>'' ''g'', RegExp ''<theme_display_name>'' ''g'',
                      RegExp ''<theme_description>'' ''g'', RegExp ''<theme_author_name>'' ''g'',
                      RegExp ''<theme_author_uri>'' ''g'', RegExp ''<theme_github_uri>'' ''g'',
                      RegExp ''<theme_uri>'' ''g'', RegExp ''wp-theme-starter-text-domain'' ''g''],
          rif_to = [slug a, displayName a, description a, authorName a, authorUri a,
                    githubUri a, uri a, textDomain a],
          rif_dry = True \<rparr>,
        \<lparr> rif_files = [styleCSS P],
          rif_ignore = [],
          rif_from = [Str ''<theme_keywords>''],
          rif_to = [keywords a],
          rif_dry = True \<rparr>,
        \<lparr> rif_files = [package P],
          rif_ignore = [],
          rif_from = [Str ''\"<theme_keywords>\"''],
          rif_to = [quoted_keywords (keywords a)],
          rif_dry = True \<rparr>,
        \<lparr> rif_files = [path_join repoName ''**/*.php''],
          rif_ignore = [''**/vendor/**/*.php''],
          rif_from = [RegExp ''<theme_slug>'' ''g'', RegExp ''wp-theme-starter-text-domain'' ''g'',
                      RegExp ''wp_theme_starter_'' ''g'', RegExp ''WP_Theme_Starter_'' ''g''],
          rif_to = [slug a, textDomain a, funcPrefix a, classPrefix a],
          rif_dry = True \<rparr>,
        \<lparr> rif_files = [path_join repoName ''readme.md''],
          rif_ignore = [],
          rif_from = [RegExp ''<!-- start_banner .* end_banner -->'' ''gim''],
          rif_to = [banner ''}'' a],
          rif_dry = True \<rparr> ])"

section \<open>The steps of the script\<close>

text \<open>The package pair: \<open>access\<close> the sample, \<open>rm\<close> the manifest, \<open>rename\<close> the sample.\<close>

definition promote_package :: "string \<Rightarrow> path_table \<Rightarrow> world \<Rightarrow> world" where
  "promote_package announcement P =
     try_catch
       [ fs_access (packageSample P),
         console_log announcement,
         fs_rm (package P),
         fs_rename (packageSample P) (package P) ]
       (\<lambda>error. emit (Error ''Unable to generate new package.json from package-sample.json''))"

text \<open>The two composer pairs share one \<open>try\<close> block, which opens with
  \<open>fs.access(paths.packageSample)\<close>.\<close>

definition promote_composer :: "path_table \<Rightarrow> world \<Rightarrow> world" where
  "promote_composer P =
     try_catch
       [ fs_access (packageSample P),
         console_log ''\<newline>Generating new composer.json's from composer-sample.json's'',
         fs_rm (composer P),
         fs_rename (composerSample P) (composer P),
         fs_rm (composerIncludes P),
         fs_rename (composerIncludesSample P) (composerIncludes P) ]
       (\<lambda>error. emit (Error ''Unable to generate new composer.json's''))"

definition substitute :: "env \<Rightarrow> string \<Rightarrow> rif_config list \<Rightarrow> world \<Rightarrow> world" where
  "substitute E announcement plan =
     try_catch
       (console_log announcement # map (replaceInFiles E) plan)
       (\<lambda>error. emit (ErrorObject error))"

text \<open>The identifiers the evolved entry point can refer to: what the module declares, and
  the globals of the runtime that it uses.\<close>

definition module_scope :: "string list" where
  "module_scope =
     [''execSync'', ''prompts'', ''replaceInFiles'', ''fs'', ''path'',
      ''stripCase'', ''upperCaseWords'', ''titleCase'', ''snakeCase'', ''titleSnakeCase'',
      ''kebabCase'', ''setTimer'', ''runCommand'', ''repoName'', ''commands'', ''paths'',
      ''require'', ''process'', ''console'', ''Promise'', ''setTimeout'']"

definition resolve_identifier :: "string \<Rightarrow> js_error option" where
  "resolve_identifier name =
     (if name \<in> set module_scope then None
      else Some (ReferenceError (name @ '' is not defined'')))"

text \<open>
  \<^verbatim>\<open>
  function setTimer(duration) {
    const promise = new Promise((resolve) => { setTimeout(resolve, toNumber(duration)); });
    return promise;
  }
  \<close>
  The executor evaluates \<open>toNumber(duration)\<close> before \<open>setTimeout\<close> is called; an
  exception in the executor rejects the promise, and \<open>await\<close> throws it.
\<close>

definition setTimer :: "nat \<Rightarrow> step" where
  "setTimer duration w =
     (case resolve_identifier ''toNumber'' of Some e \<Rightarrow> (Some e, w) | None \<Rightarrow> (None, w))"

datatype outcome = Exit int | Rejected js_error | Completed

text \<open>The evolved entry point from the clone on: \<open>repoName\<close> is \<open>process.argv[2]\<close>,
  \<open>a\<close> the answers the prompts have collected. A \<open>process.exit\<close> ends the run with its
  status, an exception that no \<open>try\<close> block catches rejects the promise of the \<open>async\<close>
  function, and a run that gets to the end completes.\<close>

definition main_evolved :: "env \<Rightarrow> string \<Rightarrow> answers \<Rightarrow> world \<Rightarrow> outcome \<times> world" where
  "main_evolved E repoName a w0 =
     (let w1 = emit (Log (''Cloning the template repository to \"'' @ repoName @ ''\"'')) w0;
          (didCheckOut, w2) = runCommand E (gitCheckout repoName) w1
      in if \<not> didCheckOut then (Exit (- 1), w2)
      else
        let w3 = promote_package ''\<newline>Generating new package.json from package-sample.json''
                   (paths repoName) w2;
            w4 = promote_composer (paths repoName) w3;
            w5 = substitute E ''Customizing theme metadata'' (plan_evolved repoName a) w4;
            w6 = emit (Log ''Creating a blank-slate Git repo'') w5
        in case setTimer 2000 w6 of
             (Some e, w7) \<Rightarrow> (Rejected e, w7)
           | (None, w7) \<Rightarrow>
              let (didClearRepo, w8) = runCommand E (newRepo repoName) w7;
                  w9 = (if \<not> didClearRepo
                        then emit (Warn ''Was unable to finish removing boilerplate's development Git history and initialize new blank repo'') w8
                        else w8);
                  w10 = emit (Log (''\<newline>Installing dependencies for '' @ repoName)) w9
              in case setTimer 2000 w10 of
                   (Some e, w11) \<Rightarrow> (Rejected e, w11)
                 | (None, w11) \<Rightarrow>
                    let (didInstallDeps, w12) = runCommand E (installDeps repoName) w11
                    in if \<not> didInstallDeps then (Exit (- 1), w12)
                       else (Completed,
                             emit (Log (''\<newline>'' @ CHR 0x09 # ''cd '' @ repoName @ '' && npm start''))
                               (emit (Log ''\<newline>Congratulations! Use the following commands to get started:'') w12)))"

text \<open>\<open>bin/cli.js\<close> from the clone on. It has no composer manifests, no reset of the
  history and no delays.\<close>

definition main_cli :: "env \<Rightarrow> string \<Rightarrow> answers \<Rightarrow> world \<Rightarrow> outcome \<times> world" where
  "main_cli E repoName a w0 =
     (let w1 = emit (Log (''Cloning the template repository to \"'' @ repoName @ ''\"'')) w0;
          (didCheckOut, w2) = runCommand E (gitCheckout repoName) w1
      in if \<not> didCheckOut then (Exit (- 1), w2)
      else
        let w3 = promote_package ''Generating new package.json from package-sample.json''
                   (paths repoName) w2;
            w4 = substitute E ''Customizing theme metadata.'' (plan_cli repoName a) w3;
            w5 = emit (Log (''Installing dependencies for '' @ repoName)) w4;
            (didInstallDeps, w6) = runCommand E (installDeps repoName) w5
        in if \<not> didInstallDeps then (Exit (- 1), w6)
           else (Completed,
                 emit (Log (''\<newline>'' @ CHR 0x09 # ''cd '' @ repoName @ '' && npm start''))
                   (emit (Log ''Congratulations! Use the following commands to get started:'') w6)))"

text \<open>Readings of the trace: the commands handed to the shell, the options of the
  \<open>replaceInFiles\<close> calls, the warnings printed.\<close>

definition commands_run :: "world \<Rightarrow> string list" where
  "commands_run w = concat (map (\<lambda>e. case e of Exec c \<Rightarrow> [c] | _ \<Rightarrow> []) (trace w))"

definition passes_run :: "world \<Rightarrow> rif_config list" where
  "passes_run w = concat (map (\<lambda>e. case e of Replace cfg \<Rightarrow> [cfg] | _ \<Rightarrow> []) (trace w))"

definition warnings :: "world \<Rightarrow> string list" where
  "warnings w = concat (map (\<lambda>e. case e of Warn m \<Rightarrow> [m] | _ \<Rightarrow> []) (trace w))"

section \<open>Concrete runs\<close>

text \<open>The manifests and the stylesheet of a freshly cloned template in the directory \<open>t\<close>.\<close>

definition template_files :: filesystem where
  "template_files =
     [ ''t/package.json'' \<mapsto> ''active package'',
       ''t/package-sample.json'' \<mapsto> ''sample package'',
       ''t/composer.json'' \<mapsto> ''active composer'',
       ''t/composer-sample.json'' \<mapsto> ''sample composer'',
       ''t/includes/composer.json'' \<mapsto> ''active includes composer'',
       ''t/includes/composer-sample.json'' \<mapsto> ''sample includes composer'',
       ''t/style.css'' \<mapsto> ''Theme Name: <theme_display_name>'' ]"

definition theme_answers :: answers where
  "theme_answers = \<lparr>
     slug = ''t'', displayName = ''T'', description = ''Modern responsive WordPress Theme.'',
     authorName = ''Denman Digital'', authorSlug = ''denman-digital'',
     authorUri = ''https://denman.digital/'',
     githubUri = ''https://github.com/Denman-Digital/t'',
     uri = ''https://github.com/Denman-Digital/t#readme'',
     keywords = ''responsive, modern'', textDomain = ''t'',
     funcPrefix = ''t_'', classPrefix = ''T_'' \<rparr>"

definition fresh :: world where
  "fresh = \<lparr>files = Map.empty, trace = []\<rparr>"

text \<open>Three environments: the clone fails; every command succeeds; only the reset of the
  history fails. The clone, where it succeeds, leaves the template behind; the replace
  library finds nothing to change.\<close>

definition clone_fails :: env where
  "clone_fails = \<lparr> execSync = (\<lambda>command fs. (False, fs)),
                    replaceLib = (\<lambda>cfg fs. (None, fs)) \<rparr>"

definition all_succeed :: env where
  "all_succeed = \<lparr> execSync = (\<lambda>command fs.
                       if command = gitCheckout ''t'' then (True, template_files) else (True, fs)),
                    replaceLib = (\<lambda>cfg fs. (None, fs)) \<rparr>"

definition reset_fails :: env where
  "reset_fails = \<lparr> execSync = (\<lambda>command fs.
                       if command = gitCheckout ''t'' then (True, template_files)
                       else if command = newRepo ''t'' then (False, fs)
                       else (True, fs)),
                    replaceLib = (\<lambda>cfg fs. (None, fs)) \<rparr>"

section \<open>Characters\<close>

lemma code_char_of: "code (char_of n) = n mod 256"
  by (simp add: code_def)

lemma code_inj: "(c = d) = (code c = code d)"
  by (simp add: code_def)

lemma code_lt: "code c < 256"
  by (simp add: code_def)



lemma code_lower_char:
  "code (lower_char c) = (if is_upper c then code c + 32 else code c)"
  using code_lt [of c] by (auto simp: lower_char_def code_char_of is_upper_def is_AZ_def)


lemma lower_char_not_upper: "\<not> is_upper (lower_char c)"
  by (auto simp: is_upper_def is_AZ_def code_lower_char)



lemma lower_char_idem: "lower_char (lower_char c) = lower_char c"
  by (simp add: code_inj code_lower_char lower_char_not_upper)







lemma AZ_upper: "is_AZ c \<Longrightarrow> is_upper c"
  by (simp add: is_upper_def)

section \<open>Replacing runs, trimming\<close>












section \<open>The normal form of \<open>stripCase\<close>\<close>















section \<open>Title case of a normal string\<close>


lemma az_not_upper: "is_az c \<Longrightarrow> \<not> is_upper c"
  by (auto simp: is_az_def is_upper_def is_AZ_def)




































section \<open>Splitting, joining and the steps of a run\<close>

subsection \<open>Split and join\<close>







subsection \<open>What a step leaves alone\<close>

lemma run_steps_keeps:
  assumes "\<And>st w. st \<in> set sts \<Longrightarrow> f (snd (st w)) = f w"
  shows "f (snd (run_steps sts w)) = f w"
  using assms
proof (induction sts arbitrary: w)
  case Nil
  then show ?case by simp
next
  case (Cons st sts)
  have st: "f (snd (st w)) = f w" by (rule Cons.prems) simp
  show ?case
  proof (cases "st w")
    case (Pair r w')
    with st have w': "f w' = f w" by simp
    show ?thesis
    proof (cases r)
      case None
      have "f (snd (run_steps sts w')) = f w'"
        by (rule Cons.IH) (rule Cons.prems, simp)
      with Pair None w' show ?thesis by simp
    next
      case (Some e)
      with Pair w' show ?thesis by simp
    qed
  qed
qed

lemma try_catch_keeps:
  assumes "\<And>st w. st \<in> set body \<Longrightarrow> f (snd (st w)) = f w"
    and "\<And>e w. f (handler e w) = f w"
  shows "f (try_catch body handler w) = f w"
proof -
  have "f (snd (run_steps body w)) = f w"
    by (rule run_steps_keeps) (rule assms(1))
  then show ?thesis
    by (cases "run_steps body w") (auto simp: try_catch_def assms(2) split: option.splits)
qed

lemma commands_run_emit:
  "commands_run (emit e w) = commands_run w @ (case e of Exec c \<Rightarrow> [c] | _ \<Rightarrow> [])"
  by (simp add: commands_run_def emit_def)

lemma warnings_emit:
  "warnings (emit e w) = warnings w @ (case e of Warn m \<Rightarrow> [m] | _ \<Rightarrow> [])"
  by (simp add: warnings_def emit_def)

lemma passes_run_emit:
  "passes_run (emit e w) = passes_run w @ (case e of Replace c \<Rightarrow> [c] | _ \<Rightarrow> [])"
  by (simp add: passes_run_def emit_def)

lemma files_emit: "files (emit e w) = files w"
  by (simp add: emit_def)

lemma trace_emit: "trace (emit e w) = trace w @ [e]"
  by (simp add: emit_def)

text \<open>The file-system steps leave the trace alone.\<close>

lemma fs_steps_trace:
  "trace (snd (fs_access p w)) = trace w"
  "trace (snd (fs_rm p w)) = trace w"
  "trace (snd (fs_rename p q w)) = trace w"
  by (auto simp: fs_access_def fs_rm_def fs_rename_def split: option.splits)

lemma commands_run_cong: "trace w' = trace w \<Longrightarrow> commands_run w' = commands_run w"
  by (simp add: commands_run_def)

lemma warnings_cong: "trace w' = trace w \<Longrightarrow> warnings w' = warnings w"
  by (simp add: warnings_def)

lemmas fs_steps_commands = fs_steps_trace [THEN commands_run_cong]
lemmas fs_steps_warnings = fs_steps_trace [THEN warnings_cong]

lemma promote_package_commands:
  "commands_run (promote_package msg P w) = commands_run w"
  unfolding promote_package_def
  by (rule try_catch_keeps)
     (auto simp: commands_run_emit console_log_def fs_steps_commands)

lemma promote_package_warnings:
  "warnings (promote_package msg P w) = warnings w"
  unfolding promote_package_def
  by (rule try_catch_keeps)
     (auto simp: warnings_emit console_log_def fs_steps_warnings)

lemma promote_composer_commands:
  "commands_run (promote_composer P w) = commands_run w"
  unfolding promote_composer_def
  by (rule try_catch_keeps)
     (auto simp: commands_run_emit console_log_def fs_steps_commands)

lemma promote_composer_warnings:
  "warnings (promote_composer P w) = warnings w"
  unfolding promote_composer_def
  by (rule try_catch_keeps)
     (auto simp: warnings_emit console_log_def fs_steps_warnings)

lemma replaceInFiles_commands:
  "commands_run (snd (replaceInFiles E cfg w)) = commands_run w"
  by (simp add: replaceInFiles_def commands_run_def emit_def split: prod.splits)

lemma replaceInFiles_warnings:
  "warnings (snd (replaceInFiles E cfg w)) = warnings w"
  by (simp add: replaceInFiles_def warnings_def emit_def split: prod.splits)

lemma substitute_commands:
  "commands_run (substitute E msg plan w) = commands_run w"
  unfolding substitute_def
  by (rule try_catch_keeps)
     (auto simp: commands_run_emit console_log_def replaceInFiles_commands)

lemma substitute_warnings:
  "warnings (substitute E msg plan w) = warnings w"
  unfolding substitute_def
  by (rule try_catch_keeps)
     (auto simp: warnings_emit console_log_def replaceInFiles_warnings)

lemma replaceInFiles_dry_files:
  "rif_dry cfg \<Longrightarrow> files (snd (replaceInFiles E cfg w)) = files w"
  by (simp add: replaceInFiles_def emit_def split: prod.splits)

lemma substitute_dry_files:
  assumes "\<forall>cfg\<in>set plan. rif_dry cfg"
  shows "files (substitute E msg plan w) = files w"
  unfolding substitute_def
  by (rule try_catch_keeps)
     (use assms in \<open>auto simp: files_emit console_log_def replaceInFiles_dry_files\<close>)

lemma plan_cli_dry: "\<forall>cfg\<in>set (plan_cli r a). rif_dry cfg"
  by (simp add: plan_cli_def Let_def)

lemma setTimer_value:
  "setTimer d w = (Some (ReferenceError ''toNumber is not defined''), w)"
  by (simp add: setTimer_def resolve_identifier_def module_scope_def)

lemma runCommand_fails:
  assumes "\<not> fst (execSync E c (files w))"
  shows "runCommand E c w =
    (False, \<lparr>files = snd (execSync E c (files w)),
             trace = trace w @ [Exec c, Error (''Failed to execute \"'' @ c @ ''\"'')]\<rparr>)"
  using assms by (cases "execSync E c (files w)") (simp add: runCommand_def emit_def)

lemma runCommand_ok:
  assumes "fst (execSync E c (files w))"
  shows "runCommand E c w =
    (True, \<lparr>files = snd (execSync E c (files w)), trace = trace w @ [Exec c]\<rparr>)"
  using assms by (cases "execSync E c (files w)") (simp add: runCommand_def emit_def)

lemma files_only_access: "files_only (fs_access p)"
  by (simp add: files_only_def fs_access_def)

lemma files_only_rm: "files_only (fs_rm p)"
  by (simp add: files_only_def fs_rm_def)

lemma files_only_rename: "files_only (fs_rename p q)"
  by (simp add: files_only_def fs_rename_def split: option.splits)

lemma files_only_log: "files_only (console_log m)"
  by (simp add: files_only_def console_log_def files_emit)

lemma run_steps_files_only:
  assumes "\<forall>st\<in>set sts. files_only st"
  shows "files_only (run_steps sts)"
  using assms
proof (induction sts)
  case Nil
  then show ?case by (simp add: files_only_def)
next
  case (Cons st sts)
  then have st: "files_only st" and rest: "files_only (run_steps sts)" by simp_all
  show ?case
    unfolding files_only_def
  proof (intro allI impI)
    fix w w' :: world
    assume eq: "files w = files w'"
    obtain r v where v: "st w = (r, v)" by (cases "st w")
    obtain r' v' where v': "st w' = (r', v')" by (cases "st w'")
    from st eq v v' have r: "r' = r" and f: "files v = files v'"
      unfolding files_only_def by (metis fst_conv, metis snd_conv)
    show "fst (run_steps (st # sts) w) = fst (run_steps (st # sts) w')
        \<and> files (snd (run_steps (st # sts) w)) = files (snd (run_steps (st # sts) w'))"
    proof (cases r)
      case None
      from rest f have "fst (run_steps sts v) = fst (run_steps sts v')
          \<and> files (snd (run_steps sts v)) = files (snd (run_steps sts v'))"
        unfolding files_only_def by blast
      with None v v' r show ?thesis by simp
    next
      case (Some e)
      with v v' r f show ?thesis by simp
    qed
  qed
qed

lemma try_catch_files_cong:
  assumes "\<forall>st\<in>set body. files_only st"
    and "\<And>e v. files (handler e v) = files v"
    and "files w = files w'"
  shows "files (try_catch body handler w) = files (try_catch body handler w')"
proof -
  obtain r v where v: "run_steps body w = (r, v)" by (cases "run_steps body w")
  obtain r' v' where v': "run_steps body w' = (r', v')" by (cases "run_steps body w'")
  from run_steps_files_only [OF assms(1)] assms(3) v v'
  have r: "r' = r" and f: "files v = files v'"
    unfolding files_only_def by (metis fst_conv, metis snd_conv)
  show ?thesis
    by (cases r) (simp_all add: try_catch_def v v' r f assms(2))
qed

lemma promote_package_files_cong:
  assumes "files w = files w'"
  shows "files (promote_package m P w) = files (promote_package m P w')"
  unfolding promote_package_def
  by (rule try_catch_files_cong [OF _ _ assms])
     (simp_all add: files_only_access files_only_rm files_only_rename files_only_log files_emit)

section \<open>The case transformers: results\<close>






section \<open>Prompts: results\<close>

text \<open>
  C9. For the slug \<open>my-project\<close>, which is also the slug offered when no directory is
  named, the function prefix offered is \<open>my_project_\<close> and the class prefix offered is
  \<open>My_Project_\<close>.
\<close>

theorem default_prefixes:
  "slug_initial None = ''my-project''
   \<and> funcPrefix_initial ''my-project'' = ''my_project_''
   \<and> classPrefix_initial ''my-project'' = ''My_Project_''"
  by code_simp

text \<open>
  C10. Both \<open>validate\<close> callbacks accept an entry exactly when it holds no white-space
  character, and answer with their message otherwise; a prompt that asks with one of them
  shows the message for a rejected entry and goes on with the next entry, and ends with the
  first entry that holds no white space.
\<close>

theorem prefix_validation:
  "(funcPrefix_validate v = Accepted \<longleftrightarrow> \<not> (\<exists>c\<in>set v. is_space c))
   \<and> (funcPrefix_validate v = Rejected_with ''Function prefix must not contain any spaces.''
        \<longleftrightarrow> (\<exists>c\<in>set v. is_space c))
   \<and> (classPrefix_validate v = Accepted \<longleftrightarrow> \<not> (\<exists>c\<in>set v. is_space c))
   \<and> (classPrefix_validate v = Rejected_with ''Class prefix must not contain any spaces.''
        \<longleftrightarrow> (\<exists>c\<in>set v. is_space c))
   \<and> ask funcPrefix_validate (v # vs) =
       (if \<exists>c\<in>set v. is_space c
        then (fst (ask funcPrefix_validate vs),
              ''Function prefix must not contain any spaces.'' # snd (ask funcPrefix_validate vs))
        else (Some v, []))
   \<and> ask classPrefix_validate (v # vs) =
       (if \<exists>c\<in>set v. is_space c
        then (fst (ask classPrefix_validate vs),
              ''Class prefix must not contain any spaces.'' # snd (ask classPrefix_validate vs))
        else (Some v, []))"
  by (simp add: funcPrefix_validate_def classPrefix_validate_def test_space_def list_ex_iff
      case_prod_unfold Let_def)

theorem prefix_validation_witness:
  "funcPrefix_validate ''my prefix_'' = Rejected_with ''Function prefix must not contain any spaces.''
   \<and> classPrefix_validate ''My_Prefix_'' = Accepted
   \<and> ask funcPrefix_validate [''my prefix_'', ''my_prefix_'']
       = (Some ''my_prefix_'', [''Function prefix must not contain any spaces.''])"
proof -
  have a: "\<exists>c\<in>set ''my prefix_''. is_space c"
    by (simp add: is_space_def code_def)
  have b: "\<not> (\<exists>c\<in>set ''My_Prefix_''. is_space c)" "\<not> (\<exists>c\<in>set ''my_prefix_''. is_space c)"
    by (simp_all add: is_space_def code_def)
  show ?thesis
    using a b prefix_validation [of "''my prefix_''" "[''my_prefix_'']"]
      prefix_validation [of "''My_Prefix_''" "[]"]
      prefix_validation [of "''my_prefix_''" "[]"]
    by simp
qed

section \<open>The keywords list: results\<close>




section \<open>The runs of the script: results\<close>

lemma evolved_after_clone:
  assumes "fst (execSync E (gitCheckout r) (files w))"
  shows "fst (main_evolved E r a w) = Rejected (ReferenceError ''toNumber is not defined'')"
    and "commands_run (snd (main_evolved E r a w)) = commands_run w @ [gitCheckout r]"
    and "warnings (snd (main_evolved E r a w)) = warnings w"
proof -
  note rc = runCommand_ok files_emit setTimer_value
  show "fst (main_evolved E r a w) = Rejected (ReferenceError ''toNumber is not defined'')"
    using assms by (simp add: main_evolved_def Let_def rc)
  show "commands_run (snd (main_evolved E r a w)) = commands_run w @ [gitCheckout r]"
    using assms
    by (simp add: main_evolved_def Let_def rc commands_run_emit
        substitute_commands promote_composer_commands promote_package_commands)
       (simp add: commands_run_def emit_def)
  show "warnings (snd (main_evolved E r a w)) = warnings w"
    using assms
    by (simp add: main_evolved_def Let_def rc warnings_emit
        substitute_warnings promote_composer_warnings promote_package_warnings)
       (simp add: warnings_def emit_def)
qed

text \<open>
  C1. When the clone command fails, the evolved entry point and \<open>bin/cli.js\<close> both exit
  with status \<open>-1\<close> at once: no call of \<open>replaceInFiles\<close> has been made, and the files
  are as the clone command left them.
\<close>

theorem clone_failure_exits:
  assumes "\<not> fst (execSync E (gitCheckout repoName) (files w))"
  shows "fst (main_evolved E repoName a w) = Exit (- 1)
       \<and> fst (main_cli E repoName a w) = Exit (- 1)
       \<and> passes_run (snd (main_evolved E repoName a w)) = passes_run w
       \<and> passes_run (snd (main_cli E repoName a w)) = passes_run w
       \<and> files (snd (main_evolved E repoName a w)) = snd (execSync E (gitCheckout repoName) (files w))
       \<and> files (snd (main_cli E repoName a w)) = snd (execSync E (gitCheckout repoName) (files w))"
  using assms
  by (simp add: main_evolved_def main_cli_def Let_def runCommand_fails files_emit)
     (simp add: passes_run_def emit_def)

theorem clone_failure_exits_witness:
  "\<not> fst (execSync clone_fails (gitCheckout ''t'') (files fresh))
   \<and> fst (main_evolved clone_fails ''t'' theme_answers fresh) = Exit (- 1)
   \<and> fst (main_cli clone_fails ''t'' theme_answers fresh) = Exit (- 1)
   \<and> passes_run (snd (main_evolved clone_fails ''t'' theme_answers fresh)) = []
   \<and> passes_run (snd (main_cli clone_fails ''t'' theme_answers fresh)) = []"
proof -
  have h: "\<not> fst (execSync clone_fails (gitCheckout ''t'') (files fresh))"
    by (simp add: clone_fails_def)
  have "passes_run fresh = []" by (simp add: passes_run_def fresh_def)
  with h clone_failure_exits [OF h, of theme_answers] show ?thesis by simp
qed

text \<open>
  C4. \<open>setTimer\<close> rejects with a \<open>ReferenceError\<close> for every duration, since \<open>toNumber\<close>
  is bound nowhere. So a run of the evolved entry point whose clone succeeds rejects at
  the first awaited delay: the clone is the only command it has run, and the commands of
  the reset and of the install are not among those it added.
\<close>

theorem setTimer_always_rejects:
  "setTimer duration w = (Some (ReferenceError ''toNumber is not defined''), w)
   \<and> (fst (execSync E (gitCheckout repoName) (files w)) \<longrightarrow>
        fst (main_evolved E repoName a w) = Rejected (ReferenceError ''toNumber is not defined'')
        \<and> commands_run (snd (main_evolved E repoName a w)) = commands_run w @ [gitCheckout repoName]
        \<and> newRepo repoName \<notin> set (commands_run (snd (main_evolved E repoName a w))) - set (commands_run w)
        \<and> installDeps repoName \<notin> set (commands_run (snd (main_evolved E repoName a w))) - set (commands_run w))"
proof -
  have ne: "newRepo repoName \<noteq> gitCheckout repoName" "installDeps repoName \<noteq> gitCheckout repoName"
    by (simp_all add: newRepo_def installDeps_def gitCheckout_def)
  show ?thesis
    using ne by (auto simp: setTimer_value evolved_after_clone)
qed

theorem setTimer_always_rejects_witness:
  "fst (execSync all_succeed (gitCheckout ''t'') (files fresh))
   \<and> fst (main_evolved all_succeed ''t'' theme_answers fresh)
       = Rejected (ReferenceError ''toNumber is not defined'')
   \<and> commands_run (snd (main_evolved all_succeed ''t'' theme_answers fresh)) = [gitCheckout ''t'']"
proof -
  have h: "fst (execSync all_succeed (gitCheckout ''t'') (files fresh))"
    by (simp add: all_succeed_def)
  have "commands_run fresh = []" by (simp add: commands_run_def fresh_def)
  with h setTimer_always_rejects [of 2000 fresh all_succeed "''t''" theme_answers]
  show ?thesis by simp
qed

text \<open>
  C2. A run of the evolved entry point in which the clone and the install would succeed and
  only the reset of the history would fail: the run rejects at the first delay, the reset
  and the install are never started, and no warning is printed.
\<close>

theorem reset_failure_run:
  "fst (execSync reset_fails (gitCheckout ''t'') Map.empty)
   \<and> \<not> fst (execSync reset_fails (newRepo ''t'') template_files)
   \<and> fst (execSync reset_fails (installDeps ''t'') template_files)
   \<and> fst (main_evolved reset_fails ''t'' theme_answers fresh)
       = Rejected (ReferenceError ''toNumber is not defined'')
   \<and> commands_run (snd (main_evolved reset_fails ''t'' theme_answers fresh)) = [gitCheckout ''t'']
   \<and> warnings (snd (main_evolved reset_fails ''t'' theme_answers fresh)) = []"
proof -
  have h: "fst (execSync reset_fails (gitCheckout ''t'') (files fresh))"
    by (simp add: reset_fails_def)
  have "commands_run fresh = []" "warnings fresh = []"
    by (simp_all add: commands_run_def warnings_def fresh_def)
  moreover have "\<not> fst (execSync reset_fails (newRepo ''t'') template_files)"
    by (simp add: reset_fails_def newRepo_def gitCheckout_def)
  moreover have "fst (execSync reset_fails (installDeps ''t'') template_files)"
    by (simp add: reset_fails_def newRepo_def gitCheckout_def installDeps_def)
  ultimately show ?thesis
    using h evolved_after_clone [OF h, of theme_answers] by (simp add: fresh_def)
qed

text \<open>The package pair, taken alone: a sample that is there replaces the manifest, a
  sample that is not there leaves it alone.\<close>

lemma paths_distinct: "package (paths r) \<noteq> packageSample (paths r)"
  by (simp add: paths_def path_join_def)

lemma promote_package_promotes:
  assumes "files w (packageSample (paths r)) = Some sample"
    and "files w (package (paths r)) \<noteq> None"
  shows "files (promote_package m (paths r) w) =
           (files w)(packageSample (paths r) := None, package (paths r) \<mapsto> sample)
       \<and> trace (promote_package m (paths r) w) = trace w @ [Log m]"
proof -
  have d: "package (paths r) \<noteq> packageSample (paths r)" by (rule paths_distinct)
  show ?thesis
    using assms d
    by (auto simp: promote_package_def try_catch_def fs_access_def fs_rm_def fs_rename_def
        console_log_def emit_def)
qed

lemma promote_package_absent:
  assumes "files w (packageSample (paths r)) = None"
  shows "promote_package m (paths r) w =
     w\<lparr>trace := trace w @ [Error ''Unable to generate new package.json from package-sample.json'']\<rparr>"
  using assms
  by (simp add: promote_package_def try_catch_def fs_access_def emit_def)

text \<open>
  C3. The Manifest Promoter of the evolved entry point on a template that holds all three
  manifests and all three samples: the package sample is promoted, and as the second block
  asks for the package sample again, which is gone by then, both composer manifests stay
  as they were, next to their samples.
\<close>

theorem composer_promotion_skipped:
  "(let w = promote_composer (paths ''t'')
              (promote_package ''\<newline>Generating new package.json from package-sample.json''
                 (paths ''t'') \<lparr>files = template_files, trace = []\<rparr>)
    in files w ''t/package.json'' = Some ''sample package''
     \<and> files w ''t/package-sample.json'' = None
     \<and> files w ''t/composer.json'' = Some ''active composer''
     \<and> files w ''t/composer-sample.json'' = Some ''sample composer''
     \<and> files w ''t/includes/composer.json'' = Some ''active includes composer''
     \<and> files w ''t/includes/composer-sample.json'' = Some ''sample includes composer''
     \<and> trace w = [Log ''\<newline>Generating new package.json from package-sample.json'',
                   Error ''Unable to generate new composer.json's''])"
  by (simp add: promote_composer_def promote_package_def try_catch_def fs_access_def fs_rm_def
      fs_rename_def console_log_def emit_def paths_def path_join_def template_files_def Let_def)

lemma runCommand_files: "files (snd (runCommand E c v)) = snd (execSync E c (files v))"
  by (cases "execSync E c (files v)") (simp add: runCommand_def files_emit Let_def)

lemma runCommand_fst: "fst (runCommand E c v) = fst (execSync E c (files v))"
  by (cases "execSync E c (files v)") (simp add: runCommand_def Let_def)

lemma main_cli_files_failed:
  assumes "\<not> fst (execSync E (gitCheckout repoName) (files w))"
  shows "files (snd (main_cli E repoName a w)) = snd (execSync E (gitCheckout repoName) (files w))"
  using assms by (simp add: main_cli_def Let_def runCommand_fails files_emit)

lemma main_cli_files_cloned:
  assumes "fst (execSync E (gitCheckout repoName) (files w))"
  shows "files (snd (main_cli E repoName a w)) =
     snd (execSync E (installDeps repoName)
       (files (promote_package ''Generating new package.json from package-sample.json''
                 (paths repoName)
                 \<lparr>files = snd (execSync E (gitCheckout repoName) (files w)), trace = []\<rparr>)))"
proof -
  let ?w1 = "emit (Log (''Cloning the template repository to \"'' @ repoName @ ''\"'')) w"
  let ?w2 = "snd (runCommand E (gitCheckout repoName) ?w1)"
  let ?w3 = "promote_package ''Generating new package.json from package-sample.json''
               (paths repoName) ?w2"
  let ?w4 = "substitute E ''Customizing theme metadata.'' (plan_cli repoName a) ?w3"
  let ?w5 = "emit (Log (''Installing dependencies for '' @ repoName)) ?w4"
  let ?w6 = "snd (runCommand E (installDeps repoName) ?w5)"
  have ok: "fst (runCommand E (gitCheckout repoName) ?w1)"
    using assms(1) by (simp only: runCommand_fst files_emit)
  have "files (snd (main_cli E repoName a w)) = files ?w6"
    unfolding main_cli_def Let_def case_prod_unfold
    using ok by (simp add: files_emit)
  also have "\<dots> = snd (execSync E (installDeps repoName) (files ?w3))"
    by (simp only: runCommand_files files_emit substitute_dry_files [OF plan_cli_dry])
  also have "files ?w2 = files \<lparr>files = snd (execSync E (gitCheckout repoName) (files w)), trace = []\<rparr>"
    by (simp only: runCommand_files files_emit world.simps)
  then have "files ?w3 = files (promote_package ''Generating new package.json from package-sample.json''
                 (paths repoName)
                 \<lparr>files = snd (execSync E (gitCheckout repoName) (files w)), trace = []\<rparr>)"
    by (rule promote_package_files_cong)
  finally show ?thesis .
qed


text \<open>How \<open>bin/cli.js\<close> ends: with status \<open>-1\<close> when the clone or the install fails, and
  by running to its end otherwise.\<close>

lemma main_cli_outcome:
  "fst (main_cli E r a w) =
     (if \<not> fst (execSync E (gitCheckout r) (files w)) then Exit (- 1)
      else if \<not> fst (execSync E (installDeps r)
                  (files (promote_package ''Generating new package.json from package-sample.json''
                     (paths r) \<lparr>files = snd (execSync E (gitCheckout r) (files w)), trace = []\<rparr>)))
      then Exit (- 1)
      else Completed)"
proof (cases "fst (execSync E (gitCheckout r) (files w))")
  case False
  then show ?thesis
    by (simp add: main_cli_def Let_def runCommand_fails files_emit)
next
  case True
  let ?w1 = "emit (Log (''Cloning the template repository to \"'' @ r @ ''\"'')) w"
  let ?w2 = "snd (runCommand E (gitCheckout r) ?w1)"
  let ?w3 = "promote_package ''Generating new package.json from package-sample.json'' (paths r) ?w2"
  have ok: "fst (runCommand E (gitCheckout r) ?w1)"
    using True by (simp only: runCommand_fst files_emit)
  have "files ?w2 = files \<lparr>files = snd (execSync E (gitCheckout r) (files w)), trace = []\<rparr>"
    by (simp only: runCommand_files files_emit world.simps)
  then have f3: "files ?w3 = files (promote_package ''Generating new package.json from package-sample.json''
                 (paths r) \<lparr>files = snd (execSync E (gitCheckout r) (files w)), trace = []\<rparr>)"
    by (rule promote_package_files_cong)
  have "fst (main_cli E r a w) =
      (if \<not> fst (execSync E (installDeps r) (files ?w3)) then Exit (- 1) else Completed)"
    unfolding main_cli_def Let_def case_prod_unfold
    using ok
    by (simp add: runCommand_fst files_emit substitute_dry_files [OF plan_cli_dry])
  with True show ?thesis by (simp only: f3 not_True_eq_False if_False)
qed

text \<open>
  C5. Every pass of \<open>bin/cli.js\<close> is a dry run; its substitution stage leaves every file
  as it was, whatever the replace library would have written; and the files at the end of
  a run are those the clone, the promotion of the package manifest and the install
  produce.
\<close>

theorem cli_substitution_is_dry:
  "(\<forall>cfg\<in>set (plan_cli repoName a). rif_dry cfg)
   \<and> files (substitute E announcement (plan_cli repoName a) w) = files w
   \<and> files (snd (main_cli E repoName a w)) =
       (if \<not> fst (execSync E (gitCheckout repoName) (files w))
        then snd (execSync E (gitCheckout repoName) (files w))
        else snd (execSync E (installDeps repoName)
               (files (promote_package ''Generating new package.json from package-sample.json''
                  (paths repoName)
                  \<lparr>files = snd (execSync E (gitCheckout repoName) (files w)), trace = []\<rparr>))))"
proof (intro conjI)
  show "\<forall>cfg\<in>set (plan_cli repoName a). rif_dry cfg" by (rule plan_cli_dry)
  show "files (substitute E announcement (plan_cli repoName a) w) = files w"
    by (rule substitute_dry_files [OF plan_cli_dry])
  show "files (snd (main_cli E repoName a w)) =
       (if \<not> fst (execSync E (gitCheckout repoName) (files w))
        then snd (execSync E (gitCheckout repoName) (files w))
        else snd (execSync E (installDeps repoName)
               (files (promote_package ''Generating new package.json from package-sample.json''
                  (paths repoName)
                  \<lparr>files = snd (execSync E (gitCheckout repoName) (files w)), trace = []\<rparr>))))"
  proof (cases "fst (execSync E (gitCheckout repoName) (files w))")
    case True
    then show ?thesis by (simp add: main_cli_files_cloned)
  next
    case False
    then show ?thesis by (simp add: main_cli_files_failed)
  qed
qed

theorem cli_substitution_is_dry_witness:
  "rif_dry (hd (plan_cli ''t'' theme_answers))
   \<and> files (substitute all_succeed ''Customizing theme metadata.'' (plan_cli ''t'' theme_answers)
        \<lparr>files = template_files, trace = []\<rparr>) = template_files"
  using cli_substitution_is_dry [of "''t''" theme_answers all_succeed
      "''Customizing theme metadata.''" "\<lparr>files = template_files, trace = []\<rparr>"]
  by (simp add: plan_cli_def Let_def)

end
